theory Spec2Isabelle
  imports Main "HOL-Library.Multiset" "HOL-Library.Char_ord" "HOL-Library.List_Lexorder"
begin

section \<open>Column Set and row projection (ViewPortColumns.scala)\<close>

subsection \<open>Data model\<close>

text \<open>
  Modelled from the spec: the declarations of \<open>Column\<close>, \<open>CalculatedColumn\<close>, \<open>RowData\<close> and
  \<open>RowWithData\<close> are imported by ViewPortColumns.scala from \<open>org.finos.vuu.core.table\<close> and are
  not part of the source at hand. A data type is a primitive tag (string, int, long, double,
  boolean, char); a row is a key and a mapping from column name to value; a column has a name
  and a data type, and a calculated column carries in addition an expression that is a pure
  function of a row. The type \<open>'v\<close> stands for Scala's \<open>Any\<close>.
\<close>

datatype dataType = StringType | IntType | LongType | DoubleType | BooleanType | CharType

datatype 'v RowData = RowWithData (key: string) (data: "string \<rightharpoonup> 'v")

datatype 'v Column =
    SimpleColumn (name: string) (dataType: dataType)
  | CalculatedColumn (name: string) (dataType: dataType)
      (calculatedExpression: "'v RowData \<Rightarrow> 'v")

text \<open>The class test \<open>c.isInstanceOf[CalculatedColumn]\<close>.\<close>

fun isInstanceOf_CalculatedColumn :: "'v Column \<Rightarrow> bool" where
  "isInstanceOf_CalculatedColumn (SimpleColumn n t) = False"
| "isInstanceOf_CalculatedColumn (CalculatedColumn n t e) = True"

text \<open>
  Modelled from the spec: \<open>RowData.get(column)\<close> is declared outside the source at hand. The
  functions of ViewPortColumns.scala below take it as the parameter \<open>rowGet\<close>. This instance
  follows the spec's words: the value is resolved by reading the physical value from the row,
  or by evaluating the calculated expression against the full source row. \<open>null\<close> is what
  reading a physical value gives when the row has no such field.
\<close>

fun getData :: "'v \<Rightarrow> 'v RowData \<Rightarrow> 'v Column \<Rightarrow> 'v" where
  "getData null row (SimpleColumn n t) = (case data row n of Some v \<Rightarrow> v | None \<Rightarrow> null)"
| "getData null row (CalculatedColumn n t e) = e row"

text \<open>
  The object \<open>ViewPortColumnCreator\<close> is declared outside the source at hand. Its two
  functions used by \<open>getEvaluatedName\<close> are taken as parameters, with the types
  the call site shows: \<open>isCalculatedColumn\<close> returns a Boolean and \<open>parseCalcColumn\<close>
  returns a triple of strings whose first component is the calculated column's name.
\<close>

record ViewPortColumnCreator =
  isCalculatedColumn :: "string \<Rightarrow> bool"
  parseCalcColumn :: "string \<Rightarrow> string \<times> string \<times> string"

text \<open>
  Modelled from the spec: one instance of the "distinguished textual form" of a reference to
  a calculated column, used for concrete evaluation only: a reference is a string containing
  a colon, read as \<open>name:type:expression\<close>.
\<close>

definition splitColon :: "string \<Rightarrow> string \<times> string" where
  "splitColon s = (takeWhile (\<lambda>c. c \<noteq> CHR '':'') s, drop 1 (dropWhile (\<lambda>c. c \<noteq> CHR '':'') s))"

definition colonCreator :: ViewPortColumnCreator where
  "colonCreator =
     \<lparr> isCalculatedColumn = (\<lambda>s. CHR '':'' \<in> set s),
       parseCalcColumn = (\<lambda>s. case splitColon s of
          (calcName, rest) \<Rightarrow> (case splitColon rest of (typ, expr) \<Rightarrow> (calcName, typ, expr))) \<rparr>"

text \<open>
  An instance of class \<open>ViewPortColumns\<close>: the mutable field \<open>columns\<close> and the memo cell of
  the \<open>lazy val hasCalculatedColumn\<close>, which is \<open>None\<close> until the value is first demanded and
  \<open>Some b\<close>, for good, afterwards.
\<close>

record 'v ViewPortColumns =
  columns :: "'v Column list"
  hasCalculatedColumn :: "bool option"

text \<open>The constructor \<open>new ViewPortColumns(sourceColumns)\<close>.\<close>

definition newViewPortColumns :: "'v Column list \<Rightarrow> 'v ViewPortColumns" where
  "newViewPortColumns sourceColumns = \<lparr> columns = sourceColumns, hasCalculatedColumn = None \<rparr>"


subsection \<open>Operations\<close>





definition addColumn :: "'v Column \<Rightarrow> 'v ViewPortColumns \<Rightarrow> 'v ViewPortColumns" where
  "addColumn column vp = vp \<lparr> columns := columns vp @ [column] \<rparr>"

definition columnExists :: "'v ViewPortColumns \<Rightarrow> string \<Rightarrow> bool" where
  "columnExists vp n = list_ex (\<lambda>c. Column.name c = n) (columns vp)"

definition getColumns :: "'v ViewPortColumns \<Rightarrow> 'v Column list" where
  "getColumns vp = columns vp"

definition getEvaluatedName :: "ViewPortColumnCreator \<Rightarrow> string \<Rightarrow> string" where
  "getEvaluatedName creator n =
     (if isCalculatedColumn creator n
      then (case parseCalcColumn creator n of (calcName, _, _) \<Rightarrow> calcName)
      else n)"

definition getColumnForName ::
  "ViewPortColumnCreator \<Rightarrow> 'v ViewPortColumns \<Rightarrow> string \<Rightarrow> 'v Column option" where
  "getColumnForName creator vp n =
     (let evaluatedName = getEvaluatedName creator n
      in find (\<lambda>c. Column.name c = evaluatedName) (columns vp))"

text \<open>
  Demanding the lazy value: the first demand evaluates
  \<open>columns.exists(c => c.isInstanceOf[CalculatedColumn])\<close> on the columns of that moment and
  stores the result; every later demand returns the stored result.
\<close>

definition demandHasCalculatedColumn :: "'v ViewPortColumns \<Rightarrow> bool \<times> 'v ViewPortColumns" where
  "demandHasCalculatedColumn vp =
     (case hasCalculatedColumn vp of
        Some b \<Rightarrow> (b, vp)
      | None \<Rightarrow>
          (let b = list_ex isInstanceOf_CalculatedColumn (columns vp)
           in (b, vp \<lparr> hasCalculatedColumn := Some b \<rparr>)))"

text \<open>Scala's \<open>toMap\<close> on a list of pairs: the pairs are added in order, a later key overriding an earlier one.\<close>

definition toMap :: "('k \<times> 'a) list \<Rightarrow> ('k \<rightharpoonup> 'a)" where
  "toMap ps = foldl (\<lambda>m kv. m(fst kv \<mapsto> snd kv)) Map.empty ps"

definition pullRowAlwaysFilter ::
  "('v RowData \<Rightarrow> 'v Column \<Rightarrow> 'v) \<Rightarrow> 'v ViewPortColumns \<Rightarrow> string \<Rightarrow> 'v RowData \<Rightarrow> 'v RowData" where
  "pullRowAlwaysFilter rowGet vp k row =
     (let rowData = toMap (map (\<lambda>c. (Column.name c, rowGet row c)) (getColumns vp))
      in RowWithData k rowData)"

definition pullRow ::
  "('v RowData \<Rightarrow> 'v Column \<Rightarrow> 'v) \<Rightarrow> 'v ViewPortColumns \<Rightarrow> string \<Rightarrow> 'v RowData
     \<Rightarrow> 'v RowData \<times> 'v ViewPortColumns" where
  "pullRow rowGet vp k row =
     (case demandHasCalculatedColumn vp of
        (b, vp') \<Rightarrow>
          if \<not> b then (row, vp')
          else (pullRowAlwaysFilter rowGet vp' k row, vp'))"

text \<open>
  A client's use of one instance over time: a sequence of \<open>addColumn\<close> and \<open>pullRow\<close> calls,
  run from left to right. \<open>runCalls\<close> gives the instance after the calls.
\<close>

datatype 'v columnsCall = AddColumnCall "'v Column" | PullRowCall string "'v RowData"

fun runCall ::
  "('v RowData \<Rightarrow> 'v Column \<Rightarrow> 'v) \<Rightarrow> 'v ViewPortColumns \<Rightarrow> 'v columnsCall \<Rightarrow> 'v ViewPortColumns" where
  "runCall rowGet vp (AddColumnCall c) = addColumn c vp"
| "runCall rowGet vp (PullRowCall k row) = snd (pullRow rowGet vp k row)"

definition runCalls ::
  "('v RowData \<Rightarrow> 'v Column \<Rightarrow> 'v) \<Rightarrow> 'v ViewPortColumns \<Rightarrow> 'v columnsCall list \<Rightarrow> 'v ViewPortColumns" where
  "runCalls rowGet vp calls = foldl (runCall rowGet) vp calls"

section \<open>Module registry (ModuleFactory)\<close>

subsection \<open>Data model\<close>

text \<open>
  What the code raises: \<open>Option.get\<close> on \<open>None\<close> and \<open>List.head\<close> on an empty list raise
  \<open>NoSuchElementException\<close>; a join-producing function supplied by a module's author may
  raise anything else.
\<close>

datatype error = NoSuchElementException | OtherException string

text \<open>
  Modelled from the spec: \<open>TableDef\<close> and \<open>JoinTableDef\<close> (a subclass of \<open>TableDef\<close>) are
  imported from \<open>io.venuu.vuu.api\<close> and are not part of the source at hand. A table definition
  is a declarative descriptor: a name, a key column and the names of its columns. The source
  at hand reads only the name.
\<close>

datatype TableDef = TableDef (name: string) (keyField: string) (columnNames: "string list")

text \<open>
  The case class \<open>TableDefs\<close>. \<open>'p\<close> is the type of a provider factory
  \<open>(DataTable, VuuServer) => Provider\<close> and \<open>'j\<close> the type of a pending join function.
\<close>

datatype ('p, 'j) TableDefs =
  TableDefs (realizedTableDefs: "TableDef list")
            (tableDefs: "(TableDef \<times> 'p) list")
            (joinDefs: "'j list")

text \<open>
  A join function \<open>TableDefs => JoinTableDef\<close> returns a definition or raises. In Scala the
  type \<open>TableDefs\<close> refers to itself through this function type. \<open>asModule\<close> only ever applies a
  join function to \<open>TableDefs(_, List(), List())\<close> extended by \<open>addRealized\<close>, a value whose list
  of join functions is empty, so the argument's list of join functions is given the element
  type \<open>unit\<close>.
\<close>

type_synonym 'p joinFunc = "('p, unit) TableDefs \<Rightarrow> error + TableDef"

datatype StaticServedResource =
  StaticServedResource (uriDirectory: string) (path: string) (canBrowse: bool)

datatype ('p, 'h) ModuleFactoryNode =
  ModuleFactoryNode (tableDefs: "('p, 'p joinFunc) TableDefs")
                    (rpc: "'h list")
                    (vsName: string)
                    (staticServedResources: "StaticServedResource list")

text \<open>
  The anonymous \<open>ViewServerModule\<close> built by \<open>asModule\<close>. Its methods take no state:
  \<open>rpcHandlerUnrealized\<close> is the result of calling the method (it raises on an empty handler
  list), and \<open>getProviderForTable\<close> maps a table's name to the provider factory that the
  method then applies to the table and the server.
\<close>

datatype ('p, 'h) ViewServerModule =
  ViewServerModule (name: string)
                   (tableDefs: "TableDef list")
                   (serializationMixin: "unit option")
                   (rpcHandlerUnrealized: "error + 'h")
                   (getProviderForTable: "string \<Rightarrow> error + 'p")
                   (staticFileResources: "StaticServedResource list")

subsection \<open>Operations\<close>

definition add :: "TableDef \<Rightarrow> 'p \<Rightarrow> ('p, 'j) TableDefs \<Rightarrow> ('p, 'j) TableDefs" where
  "add tableDef func d =
     TableDefs (realizedTableDefs d) (TableDefs.tableDefs d @ [(tableDef, func)]) (joinDefs d)"

definition addRealized :: "TableDef \<Rightarrow> ('p, 'j) TableDefs \<Rightarrow> ('p, 'j) TableDefs" where
  "addRealized tableDef d =
     TableDefs (realizedTableDefs d @ [tableDef]) (TableDefs.tableDefs d) (joinDefs d)"

definition addJoin :: "'j \<Rightarrow> ('p, 'j) TableDefs \<Rightarrow> ('p, 'j) TableDefs" where
  "addJoin func d =
     TableDefs (realizedTableDefs d) (TableDefs.tableDefs d) (joinDefs d @ [func])"

definition get :: "('p, 'j) TableDefs \<Rightarrow> string \<Rightarrow> error + TableDef" where
  "get d n =
     (case find (\<lambda>t. TableDef.name t = n) (realizedTableDefs d) of
        None \<Rightarrow> Inl NoSuchElementException
      | Some t \<Rightarrow> Inr t)"

definition addTable :: "TableDef \<Rightarrow> 'p \<Rightarrow> ('p, 'h) ModuleFactoryNode \<Rightarrow> ('p, 'h) ModuleFactoryNode" where
  "addTable tableDef func node =
     ModuleFactoryNode (add tableDef func (ModuleFactoryNode.tableDefs node))
       (rpc node) (vsName node) (staticServedResources node)"

definition addJoinTable :: "'p joinFunc \<Rightarrow> ('p, 'h) ModuleFactoryNode \<Rightarrow> ('p, 'h) ModuleFactoryNode" where
  "addJoinTable func node =
     ModuleFactoryNode (addJoin func (ModuleFactoryNode.tableDefs node))
       (rpc node) (vsName node) (staticServedResources node)"

definition addRpcHandler :: "'h \<Rightarrow> ('p, 'h) ModuleFactoryNode \<Rightarrow> ('p, 'h) ModuleFactoryNode" where
  "addRpcHandler rpcFunc node =
     ModuleFactoryNode (ModuleFactoryNode.tableDefs node)
       (rpc node @ [rpcFunc]) (vsName node) (staticServedResources node)"

definition addStaticResource ::
  "string \<Rightarrow> string \<Rightarrow> bool \<Rightarrow> ('p, 'h) ModuleFactoryNode \<Rightarrow> ('p, 'h) ModuleFactoryNode" where
  "addStaticResource uriDir pth browse node =
     ModuleFactoryNode (ModuleFactoryNode.tableDefs node) (rpc node) (vsName node)
       (staticServedResources node @ [StaticServedResource uriDir pth browse])"

text \<open>
  The \<open>foreach\<close> loop of \<open>asModule\<close> over the pending join functions, threading the variable
  \<open>mutableTableDefs\<close>. An exception raised by a join function leaves the loop and \<open>asModule\<close>.
\<close>

fun realizeJoins ::
  "('p, unit) TableDefs \<Rightarrow> 'p joinFunc list \<Rightarrow> error + ('p, unit) TableDefs" where
  "realizeJoins mutableTableDefs [] = Inr mutableTableDefs"
| "realizeJoins mutableTableDefs (toJTFunc # rest) =
     (case toJTFunc mutableTableDefs of
        Inl e \<Rightarrow> Inl e
      | Inr realizedJoinTableDef \<Rightarrow>
          realizeJoins (addRealized realizedJoinTableDef mutableTableDefs) rest)"

definition asModule :: "('p, 'h) ModuleFactoryNode \<Rightarrow> error + ('p, 'h) ViewServerModule" where
  "asModule node =
     (let baseTables = TableDefs.tableDefs (ModuleFactoryNode.tableDefs node);
          justBaseTables = map fst baseTables
      in case realizeJoins (TableDefs justBaseTables [] [])
                (joinDefs (ModuleFactoryNode.tableDefs node)) of
           Inl e \<Rightarrow> Inl e
         | Inr mutableTableDefs \<Rightarrow>
             Inr (ViewServerModule
                    (vsName node)
                    (realizedTableDefs mutableTableDefs)
                    None
                    (case rpc node of [] \<Rightarrow> Inl NoSuchElementException | h # hs \<Rightarrow> Inr h)
                    (\<lambda>tableName.
                       case find (\<lambda>tf. TableDef.name (fst tf) = tableName) baseTables of
                         None \<Rightarrow> Inl NoSuchElementException
                       | Some tf \<Rightarrow> Inr (snd tf))
                    (staticServedResources node)))"

definition withNamespace :: "string \<Rightarrow> ('p, 'h) ModuleFactoryNode" where
  "withNamespace ns = ModuleFactoryNode (TableDefs [] [] []) [] ns []"

text \<open>
  A module's assembly as its author writes it: \<open>withNamespace(ns)\<close> followed by a chain of
  builder calls, applied from left to right.
\<close>

datatype ('p, 'h) builderCall =
    AddTable TableDef 'p
  | AddJoinTable "'p joinFunc"
  | AddRpcHandler 'h
  | AddStaticResource string string bool

fun applyCall :: "('p, 'h) ModuleFactoryNode \<Rightarrow> ('p, 'h) builderCall \<Rightarrow> ('p, 'h) ModuleFactoryNode" where
  "applyCall node (AddTable t f) = addTable t f node"
| "applyCall node (AddJoinTable j) = addJoinTable j node"
| "applyCall node (AddRpcHandler h) = addRpcHandler h node"
| "applyCall node (AddStaticResource u p b) = addStaticResource u p b node"

definition assemble :: "string \<Rightarrow> ('p, 'h) builderCall list \<Rightarrow> ('p, 'h) ModuleFactoryNode" where
  "assemble ns calls = foldl applyCall (withNamespace ns) calls"

text \<open>The handlers registered by a chain of builder calls, in the order of the calls.\<close>

fun handlersOf :: "('p, 'h) builderCall list \<Rightarrow> 'h list" where
  "handlersOf [] = []"
| "handlersOf (AddRpcHandler h # calls) = h # handlersOf calls"
| "handlersOf (c # calls) = handlersOf calls"

section \<open>Notions used to state the properties\<close>


text \<open>
  Concrete values on which the operations are evaluated. \<open>anyValue\<close> is an instance of Scala's
  \<open>Any\<close>; the columns and the row are those of the spec's scenario: Column Set
  \<open>[qty:int, calc:"qty*2"]\<close> and row \<open>{qty:5}\<close>.
\<close>

datatype anyValue = Null | IntValue int | StringValue string

definition qtyColumn :: "anyValue Column" where
  "qtyColumn = SimpleColumn ''qty'' IntType"

definition calcColumn :: "anyValue Column" where
  "calcColumn = CalculatedColumn ''calc'' IntType
     (\<lambda>row. case data row ''qty'' of Some (IntValue q) \<Rightarrow> IntValue (q * 2) | _ \<Rightarrow> Null)"

definition qtyRow :: "anyValue RowData" where
  "qtyRow = RowWithData ''1'' [''qty'' \<mapsto> IntValue 5]"

definition columnA :: "anyValue Column" where
  "columnA = SimpleColumn ''A'' IntType"


definition columnA_asString :: "anyValue Column" where
  "columnA_asString = SimpleColumn ''A'' StringType"

definition ordersDef :: TableDef where
  "ordersDef = TableDef ''orders'' ''orderId'' [''orderId'', ''ric'', ''qty'']"

definition pricesDef :: TableDef where
  "pricesDef = TableDef ''prices'' ''ric'' [''ric'', ''bid'', ''ask'']"

text \<open>A chain of builder calls that registers two RPC handlers.\<close>

definition twoHandlerCalls :: "(nat, string) builderCall list" where
  "twoHandlerCalls =
     [AddTable ordersDef 1, AddRpcHandler ''first'',
      AddStaticResource ''/docs/'' ''/var/docs'' False, AddRpcHandler ''second'']"

text \<open>Calls made on an instance after its first \<open>pullRow\<close>: another \<open>pullRow\<close>, then \<open>addColumn\<close> of a calculated column.\<close>

definition laterCalls :: "anyValue columnsCall list" where
  "laterCalls = [PullRowCall ''7'' (RowWithData ''7'' Map.empty), AddColumnCall calcColumn]"

text \<open>
  An instance created with the physical column \<open>qty\<close> only, on which \<open>pullRow\<close> was called
  once before the calculated column \<open>calc\<close> was added.
\<close>

definition staleColumns :: "anyValue ViewPortColumns" where
  "staleColumns =
     addColumn calcColumn
       (snd (pullRow (getData Null) (newViewPortColumns [qtyColumn]) ''1'' qtyRow))"

text \<open>
  What the spec's realization algorithm says of a list \<open>js\<close> of results: the first
  \<open>length js\<close> join functions, taken in declaration order, each applied to the base table
  definitions followed by the results of the join functions before it, returned \<open>js\<close>.
\<close>

definition realizedInOrder :: "TableDef list \<Rightarrow> 'p joinFunc list \<Rightarrow> TableDef list \<Rightarrow> bool" where
  "realizedInOrder base fs js =
     (length js \<le> length fs \<and>
      (\<forall>i < length js. (fs ! i) (TableDefs (base @ take i js) [] []) = Inr (js ! i)))"

text \<open>
  Modelled from the spec: the constructor of \<open>JoinTableDef\<close> is outside the source at hand.
  A join function as a module's author writes it,
  \<open>tableDefs => JoinTableDef(name, tableDefs.get(left), tableDefs.get(right))\<close>: it looks both
  sides up with \<open>get\<close>, raising as \<open>get\<close> raises, and describes the join by a name, the key of
  the left side and the columns of both sides.
\<close>

definition joinOf :: "string \<Rightarrow> string \<Rightarrow> string \<Rightarrow> 'p joinFunc" where
  "joinOf n left right d =
     (case get d left of
        Inl e \<Rightarrow> Inl e
      | Inr l \<Rightarrow>
          (case get d right of
             Inl e \<Rightarrow> Inl e
           | Inr r \<Rightarrow> Inr (TableDef n (keyField l) (columnNames l @ columnNames r))))"

text \<open>Two joins, the second depending on the first, declared in dependency order and in the opposite order.\<close>

definition joinsInOrder :: "(nat, string) ModuleFactoryNode" where
  "joinsInOrder = assemble ''ns''
     [AddTable ordersDef 1, AddTable pricesDef 2,
      AddJoinTable (joinOf ''orderPrices'' ''orders'' ''prices''),
      AddJoinTable (joinOf ''orderPricesTwice'' ''orderPrices'' ''prices'')]"

definition joinsOutOfOrder :: "(nat, string) ModuleFactoryNode" where
  "joinsOutOfOrder = assemble ''ns''
     [AddTable ordersDef 1, AddTable pricesDef 2,
      AddJoinTable (joinOf ''orderPricesTwice'' ''orderPrices'' ''prices''),
      AddJoinTable (joinOf ''orderPrices'' ''orders'' ''prices'')]"

section \<open>Equality of Column Sets\<close>











section \<open>Builder calls of the module registry\<close>

text \<open>
  Claim C7: each of \<open>addTable\<close>, \<open>addJoinTable\<close>, \<open>addRpcHandler\<close> and \<open>addStaticResource\<close>
  returns a registry value in which the element is appended to the field concerned and every
  other field is that of the original. The four methods build the result with the case-class
  constructor and assign to nothing, so the original value is what it was: the model's
  functions take the original as an argument and return the result.
\<close>

theorem builder_calls_extend:
  "ModuleFactoryNode.tableDefs (addTable t f node) =
     TableDefs (realizedTableDefs (ModuleFactoryNode.tableDefs node))
       (TableDefs.tableDefs (ModuleFactoryNode.tableDefs node) @ [(t, f)])
       (joinDefs (ModuleFactoryNode.tableDefs node)) \<and>
   rpc (addTable t f node) = rpc node \<and>
   vsName (addTable t f node) = vsName node \<and>
   staticServedResources (addTable t f node) = staticServedResources node \<and>
   ModuleFactoryNode.tableDefs (addJoinTable j node) =
     TableDefs (realizedTableDefs (ModuleFactoryNode.tableDefs node))
       (TableDefs.tableDefs (ModuleFactoryNode.tableDefs node))
       (joinDefs (ModuleFactoryNode.tableDefs node) @ [j]) \<and>
   rpc (addJoinTable j node) = rpc node \<and>
   vsName (addJoinTable j node) = vsName node \<and>
   staticServedResources (addJoinTable j node) = staticServedResources node \<and>
   ModuleFactoryNode.tableDefs (addRpcHandler h node) = ModuleFactoryNode.tableDefs node \<and>
   rpc (addRpcHandler h node) = rpc node @ [h] \<and>
   vsName (addRpcHandler h node) = vsName node \<and>
   staticServedResources (addRpcHandler h node) = staticServedResources node \<and>
   ModuleFactoryNode.tableDefs (addStaticResource u p b node) =
     ModuleFactoryNode.tableDefs node \<and>
   rpc (addStaticResource u p b node) = rpc node \<and>
   vsName (addStaticResource u p b node) = vsName node \<and>
   staticServedResources (addStaticResource u p b node) =
     staticServedResources node @ [StaticServedResource u p b]"
  by (simp add: addTable_def addJoinTable_def addRpcHandler_def addStaticResource_def
      add_def addJoin_def)

section \<open>Lookup of a realized table definition\<close>

lemma find_Some_of_ex:
  "\<exists>x \<in> set xs. P x \<Longrightarrow> \<exists>x \<in> set xs. P x \<and> find P xs = Some x"
  by (induction xs) auto

lemma find_None_of_all: "\<forall>x \<in> set xs. \<not> P x \<Longrightarrow> find P xs = None"
  by (induction xs) auto

text \<open>
  Claim C5: \<open>get(name)\<close> returns a realized Table Definition with that name when one exists,
  and fails when no realized Table Definition has the name. The failure the spec calls
  UnknownTableError is, in the code, the \<open>NoSuchElementException\<close> of \<open>Option.get\<close>.
\<close>

theorem get_realized_or_fails:
  "((\<exists>t \<in> set (realizedTableDefs d). TableDef.name t = n) \<longrightarrow>
      (\<exists>t \<in> set (realizedTableDefs d). TableDef.name t = n \<and> get d n = Inr t)) \<and>
   ((\<forall>t \<in> set (realizedTableDefs d). TableDef.name t \<noteq> n) \<longrightarrow>
      get d n = Inl NoSuchElementException)"
proof (intro conjI impI)
  assume "\<exists>t \<in> set (realizedTableDefs d). TableDef.name t = n"
  from find_Some_of_ex [of "realizedTableDefs d" "\<lambda>t. TableDef.name t = n", OF this]
  show "\<exists>t \<in> set (realizedTableDefs d). TableDef.name t = n \<and> get d n = Inr t"
    by (auto simp: get_def)
next
  assume "\<forall>t \<in> set (realizedTableDefs d). TableDef.name t \<noteq> n"
  then have "find (\<lambda>t. TableDef.name t = n) (realizedTableDefs d) = None"
    by (simp add: find_None_of_all)
  then show "get d n = Inl NoSuchElementException"
    by (simp add: get_def)
qed

theorem get_realized_or_fails_witness:
  "(\<exists>t \<in> set (realizedTableDefs
        (TableDefs [ordersDef, pricesDef] [] [] :: (nat, unit) TableDefs)).
       TableDef.name t = ''prices'') \<and>
   get (TableDefs [ordersDef, pricesDef] [] [] :: (nat, unit) TableDefs) ''prices'' =
     Inr pricesDef \<and>
   ''instruments'' \<notin> TableDef.name ` set (realizedTableDefs
        (TableDefs [ordersDef, pricesDef] [] [] :: (nat, unit) TableDefs)) \<and>
   get (TableDefs [ordersDef, pricesDef] [] [] :: (nat, unit) TableDefs) ''instruments'' =
     Inl NoSuchElementException"
  using
    get_realized_or_fails
      [of "TableDefs [ordersDef, pricesDef] [] [] :: (nat, unit) TableDefs" "''prices''"]
    get_realized_or_fails
      [of "TableDefs [ordersDef, pricesDef] [] [] :: (nat, unit) TableDefs" "''instruments''"]
  by (simp add: ordersDef_def pricesDef_def)

section \<open>The RPC handler of a module\<close>

lemma rpc_foldl: "rpc (foldl applyCall node calls) = rpc node @ handlersOf calls"
proof (induction calls arbitrary: node)
  case Nil
  show ?case by simp
next
  case (Cons c calls)
  show ?case
    by (cases c)
      (simp_all add: Cons.IH addTable_def addJoinTable_def addRpcHandler_def
        addStaticResource_def)
qed

lemma rpc_assemble: "rpc (assemble ns calls) = handlersOf calls"
  by (simp add: assemble_def rpc_foldl withNamespace_def)

lemma asModule_rpcHandlerUnrealized:
  "asModule node = Inr m \<Longrightarrow>
   rpcHandlerUnrealized m =
     (case rpc node of [] \<Rightarrow> Inl NoSuchElementException | h # hs \<Rightarrow> Inr h)"
  by (auto simp: asModule_def Let_def split: sum.splits)

text \<open>
  Claim C6: for a module assembled by a chain of builder calls with one or more
  \<open>addRpcHandler\<close> calls, the module that \<open>asModule()\<close> produces realizes only the first
  registered handler: \<open>rpcHandlerUnrealized\<close> is the head of the accumulated handler list,
  whatever was appended after it.
\<close>

theorem asModule_first_handler_only:
  "handlersOf calls = h # hs \<Longrightarrow> asModule (assemble ns calls) = Inr m \<Longrightarrow>
   rpcHandlerUnrealized m = Inr h"
  by (simp add: asModule_rpcHandlerUnrealized rpc_assemble)

theorem asModule_first_handler_only_witness:
  "handlersOf twoHandlerCalls = [''first'', ''second''] \<and>
   (\<exists>m. asModule (assemble ''ns'' twoHandlerCalls) = Inr m \<and>
        rpcHandlerUnrealized m = Inr ''first'')"
proof -
  have h: "handlersOf twoHandlerCalls = ''first'' # [''second'']"
    by (simp add: twoHandlerCalls_def)
  have "\<exists>m. asModule (assemble ''ns'' twoHandlerCalls) = Inr m"
    by (simp add: twoHandlerCalls_def asModule_def assemble_def withNamespace_def addTable_def
        addRpcHandler_def addStaticResource_def add_def)
  then obtain m where m: "asModule (assemble ''ns'' twoHandlerCalls) = Inr m" ..
  from asModule_first_handler_only [OF h m] h m show ?thesis by auto
qed

section \<open>Adding a column\<close>

text \<open>
  Claim C4, as the spec states it: \<open>addColumn\<close> fails with DuplicateColumnError when the
  column's name collides with an existing physical column of a different type, and re-adding
  an identical column leaves the Column Set unchanged. The code makes no check: adding
  \<open>A:string\<close> to \<open>[A:int]\<close> gives \<open>[A:int, A:string]\<close>, and adding \<open>A:int\<close> twice gives a
  Column Set other than adding it once.
\<close>

theorem addColumn_duplicate_counterexample:
  "Column.name columnA_asString = Column.name columnA \<and>
   Column.dataType columnA_asString \<noteq> Column.dataType columnA \<and>
   columns (addColumn columnA_asString (newViewPortColumns [columnA])) =
     [columnA, columnA_asString] \<and>
   addColumn columnA (addColumn columnA (newViewPortColumns [])) \<noteq>
     addColumn columnA (newViewPortColumns [])"
  by (simp add: addColumn_def newViewPortColumns_def columnA_def columnA_asString_def)

text \<open>
  Claim C4, amended: \<open>addColumn(col)\<close> appends the given Column to the Column Set, whatever
  the names and types of the columns already there; it never fails, and adding a column a
  second time gives a Column Set different from adding it once.
\<close>

theorem addColumn_appends:
  "columns (addColumn c vp) = columns vp @ [c] \<and>
   hasCalculatedColumn (addColumn c vp) = hasCalculatedColumn vp \<and>
   addColumn c (addColumn c vp) \<noteq> addColumn c vp"
proof -
  have "columns (addColumn c (addColumn c vp)) \<noteq> columns (addColumn c vp)"
    by (simp add: addColumn_def)
  then have "addColumn c (addColumn c vp) \<noteq> addColumn c vp" by auto
  then show ?thesis by (simp add: addColumn_def)
qed

section \<open>Lookup of a column by name\<close>

lemma calcRef_parse:
  "parseCalcColumn colonCreator ''calc:Int:=qty*2'' = (''calc'', ''Int'', ''=qty*2'')"
  by (simp add: colonCreator_def splitColon_def)

lemma calcRef_isCalculated: "isCalculatedColumn colonCreator ''calc:Int:=qty*2''"
  by (simp add: colonCreator_def)

lemma plain_not_calculated:
  "\<not> isCalculatedColumn colonCreator ''qty''"
  "\<not> isCalculatedColumn colonCreator ''price''"
  "\<not> isCalculatedColumn colonCreator ''calc''"
  by (simp_all add: colonCreator_def)

lemma example_names:
  "Column.name qtyColumn = ''qty''" "Column.name calcColumn = ''calc''"
  by (simp_all add: qtyColumn_def calcColumn_def)

text \<open>
  Claim C8: \<open>getColumnForName(name)\<close> first resolves a calculated-column reference to the
  calculated column's name (the first component of the parsed reference; any other string is
  taken as it is), then returns a Column of the Column Set with the resolved name when there
  is one, and None when no column, physical or calculated, has it.
\<close>

theorem getColumnForName_resolves_reference:
  assumes "e = (if isCalculatedColumn creator n then fst (parseCalcColumn creator n) else n)"
  shows "((\<exists>c \<in> set (columns vp). Column.name c = e) \<longrightarrow>
           (\<exists>c \<in> set (columns vp).
              Column.name c = e \<and> getColumnForName creator vp n = Some c)) \<and>
         ((\<forall>c \<in> set (columns vp). Column.name c \<noteq> e) \<longrightarrow>
           getColumnForName creator vp n = None)"
proof -
  have e: "getEvaluatedName creator n = e"
    using assms by (simp add: getEvaluatedName_def split: prod.splits)
  show ?thesis
  proof (intro conjI impI)
    assume "\<exists>c \<in> set (columns vp). Column.name c = e"
    from find_Some_of_ex [of "columns vp" "\<lambda>c. Column.name c = e", OF this]
    show "\<exists>c \<in> set (columns vp). Column.name c = e \<and> getColumnForName creator vp n = Some c"
      by (simp add: getColumnForName_def e)
  next
    assume "\<forall>c \<in> set (columns vp). Column.name c \<noteq> e"
    then show "getColumnForName creator vp n = None"
      by (simp add: getColumnForName_def e find_None_of_all)
  qed
qed

theorem getColumnForName_resolves_reference_witness:
  "getColumnForName colonCreator (newViewPortColumns [qtyColumn, calcColumn])
     ''calc:Int:=qty*2'' = Some calcColumn \<and>
   getColumnForName colonCreator (newViewPortColumns [qtyColumn, calcColumn]) ''qty'' =
     Some qtyColumn \<and>
   getColumnForName colonCreator (newViewPortColumns [qtyColumn, calcColumn]) ''price'' = None"
proof -
  let ?vp = "newViewPortColumns [qtyColumn, calcColumn]"
  have cols: "columns ?vp = [qtyColumn, calcColumn]" by (simp add: newViewPortColumns_def)
  have 1: "''calc'' = (if isCalculatedColumn colonCreator ''calc:Int:=qty*2''
             then fst (parseCalcColumn colonCreator ''calc:Int:=qty*2'')
             else ''calc:Int:=qty*2'')"
    by (simp add: calcRef_parse calcRef_isCalculated)
  have 2: "''qty'' = (if isCalculatedColumn colonCreator ''qty''
             then fst (parseCalcColumn colonCreator ''qty'') else ''qty'')"
    by (simp add: plain_not_calculated)
  have 3: "''price'' = (if isCalculatedColumn colonCreator ''price''
             then fst (parseCalcColumn colonCreator ''price'') else ''price'')"
    by (simp add: plain_not_calculated)
  show ?thesis
    using getColumnForName_resolves_reference [OF 1, of ?vp]
      getColumnForName_resolves_reference [OF 2, of ?vp]
      getColumnForName_resolves_reference [OF 3, of ?vp]
    by (simp add: cols example_names)
qed

text \<open>
  Claim C10: \<open>columnExists(name)\<close> holds exactly when some column's name is the given string
  itself; it resolves no reference syntax. So for a calculated-column reference \<open>s\<close> whose
  calculated column is in the Column Set, and which is not itself the name of a column,
  \<open>getColumnForName(s)\<close> returns a column while \<open>columnExists(s)\<close> is false.
\<close>

theorem columnExists_literal_name_only:
  "(columnExists vp s \<longleftrightarrow> (\<exists>c \<in> set (columns vp). Column.name c = s)) \<and>
   (isCalculatedColumn creator s \<longrightarrow>
    (\<exists>c \<in> set (columns vp). Column.name c = fst (parseCalcColumn creator s)) \<longrightarrow>
    (\<forall>c \<in> set (columns vp). Column.name c \<noteq> s) \<longrightarrow>
    (\<exists>c. getColumnForName creator vp s = Some c) \<and> \<not> columnExists vp s)"
proof (intro conjI impI)
  show ex: "columnExists vp s \<longleftrightarrow> (\<exists>c \<in> set (columns vp). Column.name c = s)"
    by (simp add: columnExists_def list_ex_iff)
  assume calc: "isCalculatedColumn creator s"
    and found: "\<exists>c \<in> set (columns vp). Column.name c = fst (parseCalcColumn creator s)"
    and lit: "\<forall>c \<in> set (columns vp). Column.name c \<noteq> s"
  have e: "getEvaluatedName creator s = fst (parseCalcColumn creator s)"
    using calc by (simp add: getEvaluatedName_def split: prod.splits)
  from find_Some_of_ex
    [of "columns vp" "\<lambda>c. Column.name c = fst (parseCalcColumn creator s)", OF found]
  show "\<exists>c. getColumnForName creator vp s = Some c"
    by (auto simp: getColumnForName_def e)
  show "\<not> columnExists vp s" using lit by (simp add: ex)
qed

theorem columnExists_literal_name_only_witness:
  "isCalculatedColumn colonCreator ''calc:Int:=qty*2'' \<and>
   getColumnForName colonCreator (newViewPortColumns [qtyColumn, calcColumn])
     ''calc:Int:=qty*2'' = Some calcColumn \<and>
   \<not> columnExists (newViewPortColumns [qtyColumn, calcColumn]) ''calc:Int:=qty*2'' \<and>
   columnExists (newViewPortColumns [qtyColumn, calcColumn]) ''calc''"
proof -
  let ?vp = "newViewPortColumns [qtyColumn, calcColumn]"
  have cols: "columns ?vp = [qtyColumn, calcColumn]" by (simp add: newViewPortColumns_def)
  have g: "getColumnForName colonCreator ?vp ''calc:Int:=qty*2'' = Some calcColumn"
    by (simp add: getColumnForName_def getEvaluatedName_def calcRef_parse
        calcRef_isCalculated cols example_names)
  show ?thesis
    using columnExists_literal_name_only [of ?vp "''calc:Int:=qty*2''" colonCreator]
      columnExists_literal_name_only [of ?vp "''calc''" colonCreator]
    by (simp add: cols example_names calcRef_isCalculated calcRef_parse g)
qed

section \<open>Row projection and the memoised detection of calculated columns\<close>

lemma toMap_foldl: "foldl (\<lambda>m kv. m(fst kv \<mapsto> snd kv)) m0 ps = m0 ++ map_of (rev ps)"
  by (induction ps arbitrary: m0) (auto simp: map_add_def fun_eq_iff split: option.splits)

lemma toMap_map_of: "toMap ps = map_of (rev ps)"
  by (simp add: toMap_def toMap_foldl)

lemma dom_toMap: "dom (toMap ps) = fst ` set ps"
  by (simp add: toMap_map_of dom_map_of_conv_image_fst)

lemma toMap_distinct:
  "distinct (map fst ps) \<Longrightarrow> (k, v) \<in> set ps \<Longrightarrow> toMap ps k = Some v"
  by (simp add: toMap_map_of distinct_rev rev_map [symmetric])

lemma toMap_in_set: "toMap ps k = Some v \<Longrightarrow> (k, v) \<in> set ps"
  using map_of_SomeD [of "rev ps" k v] by (simp add: toMap_map_of)

lemma pullRow_Some_False:
  "hasCalculatedColumn vp = Some False \<Longrightarrow> pullRow rowGet vp k row = (row, vp)"
  by (simp add: pullRow_def demandHasCalculatedColumn_def)

lemma pullRow_memo_kept:
  "hasCalculatedColumn vp = Some b \<Longrightarrow>
   hasCalculatedColumn (snd (pullRow rowGet vp k row)) = Some b"
  by (simp add: pullRow_def demandHasCalculatedColumn_def)

lemma pullRow_memo_set:
  "hasCalculatedColumn vp = None \<Longrightarrow>
   hasCalculatedColumn (snd (pullRow rowGet vp k row)) =
     Some (list_ex isInstanceOf_CalculatedColumn (columns vp))"
  by (simp add: pullRow_def demandHasCalculatedColumn_def Let_def)

lemma runCall_memo_kept:
  "hasCalculatedColumn vp = Some b \<Longrightarrow> hasCalculatedColumn (runCall rowGet vp c) = Some b"
  by (cases c) (simp_all add: addColumn_def pullRow_memo_kept)

lemma runCalls_memo_kept:
  "hasCalculatedColumn vp = Some b \<Longrightarrow>
   hasCalculatedColumn (runCalls rowGet vp calls) = Some b"
  unfolding runCalls_def
  by (induction calls arbitrary: vp) (simp_all add: runCall_memo_kept)

text \<open>
  Claim C9: on every instance the detection of calculated columns is evaluated at most once:
  after a \<open>pullRow\<close> call the memo cell holds a value, and it holds the same value after any
  further calls of \<open>addColumn\<close> and \<open>pullRow\<close>. If the first \<open>pullRow\<close> call (memo cell still
  empty) finds no calculated column, every later \<open>pullRow\<close> call on the instance returns its
  source row, whatever columns \<open>addColumn\<close> has appended in between.
\<close>

theorem hasCalculatedColumn_evaluated_once:
  "(\<exists>b. hasCalculatedColumn (snd (pullRow rowGet vp k0 row0)) = Some b \<and>
        hasCalculatedColumn (runCalls rowGet (snd (pullRow rowGet vp k0 row0)) calls) =
          Some b) \<and>
   (hasCalculatedColumn vp = None \<longrightarrow>
    \<not> list_ex isInstanceOf_CalculatedColumn (columns vp) \<longrightarrow>
    fst (pullRow rowGet (runCalls rowGet (snd (pullRow rowGet vp k0 row0)) calls) k row) =
      row)"
proof (intro conjI impI)
  obtain b where b: "hasCalculatedColumn (snd (pullRow rowGet vp k0 row0)) = Some b"
    by (cases "hasCalculatedColumn vp") (auto simp: pullRow_memo_set pullRow_memo_kept)
  from runCalls_memo_kept [OF b] b
  show "\<exists>b. hasCalculatedColumn (snd (pullRow rowGet vp k0 row0)) = Some b \<and>
        hasCalculatedColumn (runCalls rowGet (snd (pullRow rowGet vp k0 row0)) calls) =
          Some b"
    by blast
next
  assume "hasCalculatedColumn vp = None"
    and "\<not> list_ex isInstanceOf_CalculatedColumn (columns vp)"
  then have "hasCalculatedColumn (snd (pullRow rowGet vp k0 row0)) = Some False"
    by (simp add: pullRow_memo_set)
  then have "hasCalculatedColumn
      (runCalls rowGet (snd (pullRow rowGet vp k0 row0)) calls) = Some False"
    by (rule runCalls_memo_kept)
  then show "fst (pullRow rowGet
      (runCalls rowGet (snd (pullRow rowGet vp k0 row0)) calls) k row) = row"
    by (simp add: pullRow_Some_False)
qed

theorem hasCalculatedColumn_evaluated_once_witness:
  "hasCalculatedColumn (newViewPortColumns [qtyColumn]) = None \<and>
   \<not> list_ex isInstanceOf_CalculatedColumn (columns (newViewPortColumns [qtyColumn])) \<and>
   list_ex isInstanceOf_CalculatedColumn
     (columns (runCalls (getData Null)
        (snd (pullRow (getData Null) (newViewPortColumns [qtyColumn]) ''0'' qtyRow))
        laterCalls)) \<and>
   fst (pullRow (getData Null)
     (runCalls (getData Null)
        (snd (pullRow (getData Null) (newViewPortColumns [qtyColumn]) ''0'' qtyRow))
        laterCalls)
     ''1'' qtyRow) = qtyRow"
proof -
  have a: "hasCalculatedColumn (newViewPortColumns [qtyColumn]) = None"
    by (simp add: newViewPortColumns_def)
  have b: "\<not> list_ex isInstanceOf_CalculatedColumn (columns (newViewPortColumns [qtyColumn]))"
    by (simp add: newViewPortColumns_def qtyColumn_def)
  have c: "list_ex isInstanceOf_CalculatedColumn
     (columns (runCalls (getData Null)
        (snd (pullRow (getData Null) (newViewPortColumns [qtyColumn]) ''0'' qtyRow))
        laterCalls))"
    by (simp add: runCalls_def laterCalls_def pullRow_def demandHasCalculatedColumn_def
        newViewPortColumns_def addColumn_def qtyColumn_def calcColumn_def)
  from hasCalculatedColumn_evaluated_once
    [of "getData Null" "newViewPortColumns [qtyColumn]" "''0''" qtyRow laterCalls "''1''" qtyRow]
    a b c
  show ?thesis by blast
qed

text \<open>
  Claim C1, as the spec states it: for every Column Set with at least one calculated column,
  \<open>pullRow\<close> returns a new row containing exactly the Column Set's columns. On an instance
  that answered a \<open>pullRow\<close> call before its calculated column was added, the Column Set
  contains the calculated column \<open>calc\<close> and \<open>pullRow\<close> still returns the source row, which
  has no field \<open>calc\<close>.
\<close>

theorem pullRow_calculated_counterexample:
  "list_ex isInstanceOf_CalculatedColumn (columns staleColumns) \<and>
   fst (pullRow (getData Null) staleColumns ''1'' qtyRow) = qtyRow \<and>
   data qtyRow ''calc'' = None"
  by (simp add: staleColumns_def pullRow_def demandHasCalculatedColumn_def
      newViewPortColumns_def addColumn_def qtyColumn_def calcColumn_def qtyRow_def)

text \<open>
  Claim C1, amended: on every instance whose detection of calculated columns is not yet
  evaluated, or was evaluated with the result that the present Column Set gives, and for
  every source row: if the Column Set contains no calculated column, \<open>pullRow(key, row)\<close>
  returns the source row itself; if it contains at least one, \<open>pullRow\<close> returns a new row
  with the given key whose fields are exactly the names of the Column Set's columns, the
  value of each field being \<open>row.get(c)\<close>, on the full source row, of a column \<open>c\<close> of that
  name (of every column, when the names are pairwise distinct).
\<close>

theorem pullRow_fast_path_or_projection:
  assumes memo: "hasCalculatedColumn vp = None \<or>
                 hasCalculatedColumn vp =
                   Some (list_ex isInstanceOf_CalculatedColumn (columns vp))"
  shows "(\<not> list_ex isInstanceOf_CalculatedColumn (columns vp) \<longrightarrow>
            fst (pullRow rowGet vp k row) = row) \<and>
         (list_ex isInstanceOf_CalculatedColumn (columns vp) \<longrightarrow>
            (\<exists>m. fst (pullRow rowGet vp k row) = RowWithData k m \<and>
                 dom m = Column.name ` set (columns vp) \<and>
                 (\<forall>n \<in> dom m. \<exists>c \<in> set (columns vp).
                     Column.name c = n \<and> m n = Some (rowGet row c)) \<and>
                 (distinct (map Column.name (columns vp)) \<longrightarrow>
                    (\<forall>c \<in> set (columns vp). m (Column.name c) = Some (rowGet row c)))))"
proof -
  let ?b = "list_ex isInstanceOf_CalculatedColumn (columns vp)"
  let ?ps = "map (\<lambda>c. (Column.name c, rowGet row c)) (columns vp)"
  obtain vp' where d: "demandHasCalculatedColumn vp = (?b, vp')"
    and c: "columns vp' = columns vp"
    using memo by (auto simp: demandHasCalculatedColumn_def Let_def)
  have fast: "\<not> ?b \<Longrightarrow> fst (pullRow rowGet vp k row) = row"
    by (simp add: pullRow_def d)
  have slow: "?b \<Longrightarrow> fst (pullRow rowGet vp k row) = RowWithData k (toMap ?ps)"
    by (simp add: pullRow_def d pullRowAlwaysFilter_def getColumns_def c)
  have 1: "dom (toMap ?ps) = Column.name ` set (columns vp)"
    by (simp add: dom_toMap image_image)
  have 2: "\<forall>n \<in> dom (toMap ?ps). \<exists>c \<in> set (columns vp).
      Column.name c = n \<and> toMap ?ps n = Some (rowGet row c)"
  proof
    fix n assume "n \<in> dom (toMap ?ps)"
    then obtain v where "toMap ?ps n = Some v" by auto
    from toMap_in_set [OF this] this
    show "\<exists>c \<in> set (columns vp). Column.name c = n \<and> toMap ?ps n = Some (rowGet row c)"
      by auto
  qed
  have 3: "distinct (map Column.name (columns vp)) \<Longrightarrow>
     \<forall>c \<in> set (columns vp). toMap ?ps (Column.name c) = Some (rowGet row c)"
  proof
    fix c assume dist: "distinct (map Column.name (columns vp))" and c: "c \<in> set (columns vp)"
    have "distinct (map fst ?ps)" using dist by (simp add: comp_def)
    moreover have "(Column.name c, rowGet row c) \<in> set ?ps" using c by auto
    ultimately show "toMap ?ps (Column.name c) = Some (rowGet row c)" by (rule toMap_distinct)
  qed
  show ?thesis using fast slow 1 2 3 by blast
qed

theorem pullRow_fast_path_or_projection_witness:
  "fst (pullRow (getData Null) (newViewPortColumns [qtyColumn]) ''1'' qtyRow) = qtyRow \<and>
   fst (pullRow (getData Null) (newViewPortColumns [qtyColumn, calcColumn]) ''1'' qtyRow) =
     RowWithData ''1'' [''qty'' \<mapsto> IntValue 5, ''calc'' \<mapsto> IntValue 10]"
proof -
  have a: "hasCalculatedColumn (newViewPortColumns [qtyColumn]) = None \<or>
     hasCalculatedColumn (newViewPortColumns [qtyColumn]) =
       Some (list_ex isInstanceOf_CalculatedColumn (columns (newViewPortColumns [qtyColumn])))"
    by (simp add: newViewPortColumns_def)
  have b: "hasCalculatedColumn (newViewPortColumns [qtyColumn, calcColumn]) = None \<or>
     hasCalculatedColumn (newViewPortColumns [qtyColumn, calcColumn]) =
       Some (list_ex isInstanceOf_CalculatedColumn
              (columns (newViewPortColumns [qtyColumn, calcColumn])))"
    by (simp add: newViewPortColumns_def)
  have na: "\<not> list_ex isInstanceOf_CalculatedColumn (columns (newViewPortColumns [qtyColumn]))"
    by (simp add: newViewPortColumns_def qtyColumn_def)
  have "fst (pullRow (getData Null) (newViewPortColumns [qtyColumn, calcColumn]) ''1'' qtyRow) =
     RowWithData ''1'' [''qty'' \<mapsto> IntValue 5, ''calc'' \<mapsto> IntValue 10]"
    by (simp add: pullRow_def demandHasCalculatedColumn_def newViewPortColumns_def
        pullRowAlwaysFilter_def getColumns_def toMap_def qtyColumn_def calcColumn_def
        qtyRow_def)
  then show ?thesis
    using pullRow_fast_path_or_projection [OF a, of "getData Null" "''1''" qtyRow]
      pullRow_fast_path_or_projection [OF b, of "getData Null" "''1''" qtyRow] na
    by simp
qed

section \<open>Realization of the join definitions\<close>

lemma realizedInOrder_Nil: "realizedInOrder base fs []"
  by (simp add: realizedInOrder_def)

lemma realizedInOrder_Cons:
  "realizedInOrder base (f # fs) (j # js) \<longleftrightarrow>
     f (TableDefs base [] []) = Inr j \<and> realizedInOrder (base @ [j]) fs js"
proof -
  have "(\<forall>i < Suc (length js). ((f # fs) ! i) (TableDefs (base @ take i (j # js)) [] []) = Inr ((j # js) ! i))
    \<longleftrightarrow> f (TableDefs base [] []) = Inr j \<and>
        (\<forall>i < length js. (fs ! i) (TableDefs ((base @ [j]) @ take i js) [] []) = Inr (js ! i))"
    by (simp add: All_less_Suc2)
  then show ?thesis unfolding realizedInOrder_def by auto
qed

lemma realizeJoins_Inr:
  "realizeJoins (TableDefs base [] []) fs = Inr d \<longleftrightarrow>
     (\<exists>js. length js = length fs \<and> realizedInOrder base fs js \<and> d = TableDefs (base @ js) [] [])"
proof (induction fs arbitrary: base)
  case Nil
  show ?case by (auto simp: realizedInOrder_Nil)
next
  case (Cons f fs)
  show ?case
  proof (cases "f (TableDefs base [] [])")
    case (Inl e)
    have "\<not> (\<exists>js. length js = length (f # fs) \<and> realizedInOrder base (f # fs) js \<and> d = TableDefs (base @ js) [] [])"
    proof
      assume "\<exists>js. length js = length (f # fs) \<and> realizedInOrder base (f # fs) js \<and> d = TableDefs (base @ js) [] []"
      then obtain js where l: "length js = length (f # fs)" and r: "realizedInOrder base (f # fs) js" by blast
      from l obtain j js' where "js = j # js'" by (cases js) auto
      with r Inl show False by (simp add: realizedInOrder_Cons)
    qed
    with Inl show ?thesis by simp
  next
    case (Inr j)
    have "realizeJoins (TableDefs base [] []) (f # fs) = realizeJoins (TableDefs (base @ [j]) [] []) fs"
      using Inr by (simp add: addRealized_def)
    also have "\<dots> = Inr d \<longleftrightarrow>
       (\<exists>js. length js = length fs \<and> realizedInOrder (base @ [j]) fs js \<and> d = TableDefs ((base @ [j]) @ js) [] [])"
      by (rule Cons.IH)
    also have "\<dots> \<longleftrightarrow> (\<exists>js. length js = length (f # fs) \<and> realizedInOrder base (f # fs) js \<and> d = TableDefs (base @ js) [] [])"
    proof
      assume "\<exists>js. length js = length fs \<and> realizedInOrder (base @ [j]) fs js \<and> d = TableDefs ((base @ [j]) @ js) [] []"
      then obtain js where "length js = length fs" "realizedInOrder (base @ [j]) fs js" "d = TableDefs ((base @ [j]) @ js) [] []" by blast
      then have "length (j # js) = length (f # fs) \<and> realizedInOrder base (f # fs) (j # js) \<and> d = TableDefs (base @ j # js) [] []"
        using Inr by (simp add: realizedInOrder_Cons)
      then show "\<exists>js. length js = length (f # fs) \<and> realizedInOrder base (f # fs) js \<and> d = TableDefs (base @ js) [] []" by blast
    next
      assume "\<exists>js. length js = length (f # fs) \<and> realizedInOrder base (f # fs) js \<and> d = TableDefs (base @ js) [] []"
      then obtain js where l: "length js = length (f # fs)" and r: "realizedInOrder base (f # fs) js" and d: "d = TableDefs (base @ js) [] []" by blast
      from l obtain j' js' where js: "js = j' # js'" by (cases js) auto
      with r Inr have "j' = j" "realizedInOrder (base @ [j]) fs js'" by (simp_all add: realizedInOrder_Cons)
      with l d js show "\<exists>js. length js = length fs \<and> realizedInOrder (base @ [j]) fs js \<and> d = TableDefs ((base @ [j]) @ js) [] []"
        by auto
    qed
    finally show ?thesis .
  qed
qed

lemma realizeJoins_Inl:
  "realizeJoins (TableDefs base [] []) fs = Inl e \<longleftrightarrow>
     (\<exists>js. length js < length fs \<and> realizedInOrder base fs js \<and>
           (fs ! length js) (TableDefs (base @ js) [] []) = Inl e)"
proof (induction fs arbitrary: base)
  case Nil
  show ?case by simp
next
  case (Cons f fs)
  show ?case
  proof (cases "f (TableDefs base [] [])")
    case (Inl e')
    have "(\<exists>js. length js < length (f # fs) \<and> realizedInOrder base (f # fs) js \<and>
           ((f # fs) ! length js) (TableDefs (base @ js) [] []) = Inl e) \<longleftrightarrow> e' = e"
    proof
      assume "\<exists>js. length js < length (f # fs) \<and> realizedInOrder base (f # fs) js \<and>
           ((f # fs) ! length js) (TableDefs (base @ js) [] []) = Inl e"
      then obtain js where r: "realizedInOrder base (f # fs) js"
        and x: "((f # fs) ! length js) (TableDefs (base @ js) [] []) = Inl e" by blast
      show "e' = e"
      proof (cases js)
        case Nil with x Inl show ?thesis by simp
      next
        case (Cons j js') with r Inl show ?thesis by (simp add: realizedInOrder_Cons)
      qed
    next
      assume "e' = e"
      with Inl have "length [] < length (f # fs) \<and> realizedInOrder base (f # fs) [] \<and>
           ((f # fs) ! length ([] :: TableDef list)) (TableDefs (base @ []) [] []) = Inl e"
        by (simp add: realizedInOrder_Nil)
      then show "\<exists>js. length js < length (f # fs) \<and> realizedInOrder base (f # fs) js \<and>
           ((f # fs) ! length js) (TableDefs (base @ js) [] []) = Inl e" by blast
    qed
    with Inl show ?thesis by auto
  next
    case (Inr j)
    have "realizeJoins (TableDefs base [] []) (f # fs) = realizeJoins (TableDefs (base @ [j]) [] []) fs"
      using Inr by (simp add: addRealized_def)
    also have "\<dots> = Inl e \<longleftrightarrow>
       (\<exists>js. length js < length fs \<and> realizedInOrder (base @ [j]) fs js \<and>
           (fs ! length js) (TableDefs ((base @ [j]) @ js) [] []) = Inl e)"
      by (rule Cons.IH)
    also have "\<dots> \<longleftrightarrow> (\<exists>js. length js < length (f # fs) \<and> realizedInOrder base (f # fs) js \<and>
           ((f # fs) ! length js) (TableDefs (base @ js) [] []) = Inl e)"
    proof
      assume "\<exists>js. length js < length fs \<and> realizedInOrder (base @ [j]) fs js \<and>
           (fs ! length js) (TableDefs ((base @ [j]) @ js) [] []) = Inl e"
      then obtain js where "length js < length fs" "realizedInOrder (base @ [j]) fs js"
           "(fs ! length js) (TableDefs ((base @ [j]) @ js) [] []) = Inl e" by blast
      then have "length (j # js) < length (f # fs) \<and> realizedInOrder base (f # fs) (j # js) \<and>
           ((f # fs) ! length (j # js)) (TableDefs (base @ j # js) [] []) = Inl e"
        using Inr by (simp add: realizedInOrder_Cons)
      then show "\<exists>js. length js < length (f # fs) \<and> realizedInOrder base (f # fs) js \<and>
           ((f # fs) ! length js) (TableDefs (base @ js) [] []) = Inl e" by blast
    next
      assume "\<exists>js. length js < length (f # fs) \<and> realizedInOrder base (f # fs) js \<and>
           ((f # fs) ! length js) (TableDefs (base @ js) [] []) = Inl e"
      then obtain js where l: "length js < length (f # fs)" and r: "realizedInOrder base (f # fs) js"
         and x: "((f # fs) ! length js) (TableDefs (base @ js) [] []) = Inl e" by blast
      show "\<exists>js. length js < length fs \<and> realizedInOrder (base @ [j]) fs js \<and>
           (fs ! length js) (TableDefs ((base @ [j]) @ js) [] []) = Inl e"
      proof (cases js)
        case Nil with x Inr show ?thesis by simp
      next
        case (Cons j' js')
        with r Inr have "j' = j" "realizedInOrder (base @ [j]) fs js'" by (simp_all add: realizedInOrder_Cons)
        with l x Cons show ?thesis by auto
      qed
    qed
    finally show ?thesis .
  qed
qed

lemma asModule_Inr_iff:
  "asModule node = Inr m \<longleftrightarrow>
     (\<exists>d. realizeJoins
            (TableDefs (map fst (TableDefs.tableDefs (ModuleFactoryNode.tableDefs node))) [] [])
            (joinDefs (ModuleFactoryNode.tableDefs node)) = Inr d \<and>
          m = ViewServerModule (vsName node) (realizedTableDefs d) None
                (case rpc node of [] \<Rightarrow> Inl NoSuchElementException | h # hs \<Rightarrow> Inr h)
                (\<lambda>tableName.
                   case find (\<lambda>tf. TableDef.name (fst tf) = tableName)
                          (TableDefs.tableDefs (ModuleFactoryNode.tableDefs node)) of
                     None \<Rightarrow> Inl NoSuchElementException
                   | Some tf \<Rightarrow> Inr (snd tf))
                (staticServedResources node))"
  by (auto simp: asModule_def Let_def split: sum.splits)

lemma asModule_Inl_iff:
  "asModule node = Inl e \<longleftrightarrow>
     realizeJoins
       (TableDefs (map fst (TableDefs.tableDefs (ModuleFactoryNode.tableDefs node))) [] [])
       (joinDefs (ModuleFactoryNode.tableDefs node)) = Inl e"
  by (auto simp: asModule_def Let_def split: sum.splits)

text \<open>
  Claim C2: \<open>asModule()\<close> invokes the pending join functions in declaration order, each with
  the list realized so far (the base table definitions followed by the results of the join
  functions before it), and appends each result before the next join function runs. So the
  module's table definitions are the base definitions followed by results realized in that
  order, and such results always give a module; \<open>asModule()\<close> raises exactly the exception of
  the first join function that raises on the list realized before it; and a join function
  that raises whenever no realized definition has the name \<open>x\<close> makes \<open>asModule()\<close> raise when
  \<open>x\<close> is not the name of a base definition or of an earlier join's result, even if a later
  join would realize it.
\<close>

theorem asModule_realizes_joins_in_order:
  assumes base: "base = map fst (TableDefs.tableDefs (ModuleFactoryNode.tableDefs node))"
    and fs: "fs = joinDefs (ModuleFactoryNode.tableDefs node)"
  shows
    "(\<forall>m. asModule node = Inr m \<longrightarrow>
        (\<exists>js. length js = length fs \<and> realizedInOrder base fs js \<and>
              ViewServerModule.tableDefs m = base @ js)) \<and>
     (\<forall>js. length js = length fs \<longrightarrow> realizedInOrder base fs js \<longrightarrow>
        (\<exists>m. asModule node = Inr m \<and> ViewServerModule.tableDefs m = base @ js)) \<and>
     (\<forall>e. asModule node = Inl e \<longleftrightarrow>
        (\<exists>js. length js < length fs \<and> realizedInOrder base fs js \<and>
              (fs ! length js) (TableDefs (base @ js) [] []) = Inl e)) \<and>
     (\<forall>js x. length js < length fs \<longrightarrow> realizedInOrder base fs js \<longrightarrow>
        (\<forall>d. (\<forall>t \<in> set (realizedTableDefs d). TableDef.name t \<noteq> x) \<longrightarrow>
             (\<exists>e. (fs ! length js) d = Inl e)) \<longrightarrow>
        (\<forall>t \<in> set (base @ js). TableDef.name t \<noteq> x) \<longrightarrow>
        (\<exists>e. asModule node = Inl e))"
proof (intro conjI allI impI)
  fix m assume "asModule node = Inr m"
  then obtain d where d: "realizeJoins (TableDefs base [] []) fs = Inr d"
    and m: "ViewServerModule.tableDefs m = realizedTableDefs d"
    unfolding asModule_Inr_iff base fs by auto
  from d obtain js where "length js = length fs" "realizedInOrder base fs js"
    "d = TableDefs (base @ js) [] []"
    unfolding realizeJoins_Inr by blast
  with m show "\<exists>js. length js = length fs \<and> realizedInOrder base fs js \<and>
      ViewServerModule.tableDefs m = base @ js"
    by auto
next
  fix js assume "length js = length fs" "realizedInOrder base fs js"
  then have "realizeJoins (TableDefs base [] []) fs = Inr (TableDefs (base @ js) [] [])"
    unfolding realizeJoins_Inr by blast
  then show "\<exists>m. asModule node = Inr m \<and> ViewServerModule.tableDefs m = base @ js"
    unfolding asModule_Inr_iff base fs by simp
next
  fix e
  show "asModule node = Inl e \<longleftrightarrow>
        (\<exists>js. length js < length fs \<and> realizedInOrder base fs js \<and>
              (fs ! length js) (TableDefs (base @ js) [] []) = Inl e)"
    unfolding asModule_Inl_iff base [symmetric] fs [symmetric] by (rule realizeJoins_Inl)
next
  fix js x
  assume l: "length js < length fs" and r: "realizedInOrder base fs js"
    and dep: "\<forall>d. (\<forall>t \<in> set (realizedTableDefs d). TableDef.name t \<noteq> x) \<longrightarrow>
             (\<exists>e. (fs ! length js) d = Inl e)"
    and x: "\<forall>t \<in> set (base @ js). TableDef.name t \<noteq> x"
  from x have "\<forall>t \<in> set (realizedTableDefs (TableDefs (base @ js) [] [] :: ('a, unit) TableDefs)).
      TableDef.name t \<noteq> x" by simp
  with dep obtain e where "(fs ! length js) (TableDefs (base @ js) [] []) = Inl e" by blast
  with l r have "realizeJoins (TableDefs base [] []) fs = Inl e"
    unfolding realizeJoins_Inl by blast
  then show "\<exists>e. asModule node = Inl e"
    unfolding asModule_Inl_iff base fs by blast
qed

lemma joinOf_depends_on_left:
  "\<forall>t \<in> set (realizedTableDefs d). TableDef.name t \<noteq> left \<Longrightarrow> \<exists>e. joinOf n left right d = Inl e"
  by (simp add: joinOf_def get_def find_None_of_all)


theorem asModule_realizes_joins_in_order_witness:
  "(\<exists>m. asModule joinsInOrder = Inr m \<and>
        ViewServerModule.tableDefs m =
          [ordersDef, pricesDef,
           TableDef ''orderPrices'' ''orderId'' [''orderId'', ''ric'', ''qty'', ''ric'', ''bid'', ''ask''],
           TableDef ''orderPricesTwice'' ''orderId''
             [''orderId'', ''ric'', ''qty'', ''ric'', ''bid'', ''ask'', ''ric'', ''bid'', ''ask'']]) \<and>
   asModule joinsOutOfOrder = Inl NoSuchElementException"
proof -
  let ?J1 = "joinOf ''orderPrices'' ''orders'' ''prices'' :: nat joinFunc"
  let ?J2 = "joinOf ''orderPricesTwice'' ''orderPrices'' ''prices'' :: nat joinFunc"
  let ?op = "TableDef ''orderPrices'' ''orderId'' [''orderId'', ''ric'', ''qty'', ''ric'', ''bid'', ''ask'']"
  let ?op2 = "TableDef ''orderPricesTwice'' ''orderId''
             [''orderId'', ''ric'', ''qty'', ''ric'', ''bid'', ''ask'', ''ric'', ''bid'', ''ask'']"
  have b1: "[ordersDef, pricesDef] = map fst (TableDefs.tableDefs (ModuleFactoryNode.tableDefs joinsInOrder))"
    and f1: "[?J1, ?J2] = joinDefs (ModuleFactoryNode.tableDefs joinsInOrder)"
    by (simp_all add: joinsInOrder_def assemble_def withNamespace_def addTable_def addJoinTable_def
        add_def addJoin_def)
  have b2: "[ordersDef, pricesDef] = map fst (TableDefs.tableDefs (ModuleFactoryNode.tableDefs joinsOutOfOrder))"
    and f2: "[?J2, ?J1] = joinDefs (ModuleFactoryNode.tableDefs joinsOutOfOrder)"
    by (simp_all add: joinsOutOfOrder_def assemble_def withNamespace_def addTable_def addJoinTable_def
        add_def addJoin_def)
  have j1: "?J1 (TableDefs [ordersDef, pricesDef] [] []) = Inr ?op"
    by (simp add: joinOf_def get_def ordersDef_def pricesDef_def)
  have j2: "?J2 (TableDefs [ordersDef, pricesDef, ?op] [] []) = Inr ?op2"
    by (simp add: joinOf_def get_def ordersDef_def pricesDef_def)
  have ord: "length [?op, ?op2] = length [?J1, ?J2] \<and>
             realizedInOrder [ordersDef, pricesDef] [?J1, ?J2] [?op, ?op2]"
    using j1 j2 by (simp add: realizedInOrder_def All_less_Suc2)
  have absent: "\<forall>t \<in> set ([ordersDef, pricesDef] @ []). TableDef.name t \<noteq> ''orderPrices''"
    by (simp add: ordersDef_def pricesDef_def)
  have dep: "\<forall>d :: (nat, unit) TableDefs. (\<forall>t \<in> set (realizedTableDefs d). TableDef.name t \<noteq> ''orderPrices'') \<longrightarrow>
             (\<exists>e. ([?J2, ?J1] ! length ([] :: TableDef list)) d = Inl e)"
    by (simp add: joinOf_depends_on_left)
  have fail: "asModule joinsOutOfOrder = Inl NoSuchElementException"
    by (simp add: joinsOutOfOrder_def asModule_def assemble_def withNamespace_def addTable_def
        addJoinTable_def add_def addJoin_def joinOf_def get_def ordersDef_def pricesDef_def)
  from asModule_realizes_joins_in_order [OF b1 f1] ord
  have "\<exists>m. asModule joinsInOrder = Inr m \<and>
      ViewServerModule.tableDefs m = [ordersDef, pricesDef] @ [?op, ?op2]"
    by blast
  moreover
  have l0: "length ([] :: TableDef list) < length [?J2, ?J1]" by simp
  have r0: "realizedInOrder [ordersDef, pricesDef] [?J2, ?J1] []" by (rule realizedInOrder_Nil)
  note dependency = asModule_realizes_joins_in_order
    [OF b2 f2, THEN conjunct2, THEN conjunct2, THEN conjunct2]
  have "\<exists>e. asModule joinsOutOfOrder = Inl e"
    by (rule dependency [THEN spec, THEN spec, THEN mp, OF l0, THEN mp, OF r0,
          THEN mp, OF dep, THEN mp, OF absent])
  ultimately show ?thesis using fail by simp
qed

end
